theory Spec2Isabelle
  imports Main "HOL-Library.Word"
begin

section \<open>The mail transaction log manager and the configuration filter\<close>

text \<open>
  A shallow embedding of \<^verbatim>\<open>src/lib-index/mail-transaction-log.c\<close> and of
  \<^verbatim>\<open>config_filter_is_superset\<close> from \<^verbatim>\<open>src/config/config-filter.c\<close>.

  Log files live in a store indexed by addresses, because the C code compares and
  shares pointers (\<^verbatim>\<open>log->head == file\<close>). An address whose cell is empty, or that
  lies outside the store, is a null or dangling pointer: reading through it is the
  error \<open>Null_deref\<close>. A failed \<^verbatim>\<open>i_assert\<close> is the error \<open>Assert_failed\<close>.
  Functions that return \<^verbatim>\<open>int\<close> return the code together with the new state.
\<close>

subsection \<open>Data model\<close>

type_synonym ptr = nat
type_synonym uint32 = "32 word"
type_synonym uoff = "64 word"
type_synonym byte = "8 word"

datatype error = Assert_failed | Null_deref

text \<open>
  \<^verbatim>\<open>struct mail_transaction_log_file\<close>, with the fields the functions below read or
  write. \<open>mmap_base\<close> and \<open>buffer\<close> hold the bytes they point to (\<open>None\<close> is
  \<^verbatim>\<open>NULL\<close>); \<open>refcount\<close> is a C \<^verbatim>\<open>int\<close>, far from its bounds, kept as an integer.
  The \<^verbatim>\<open>next\<close> link is kept in the log's \<open>files\<close> list.
\<close>

record mail_transaction_log_file =
  filepath :: string
  fd :: int
  st_ino :: nat
  st_dev :: nat
  last_mtime :: int
  last_size :: uoff
  hdr_file_seq :: uint32
  hdr_prev_file_seq :: uint32
  hdr_prev_file_offset :: uoff
  hdr_create_stamp :: int
  mmap_base :: "byte list option"
  buffer :: "byte list option"
  buffer_offset :: uoff
  sync_offset :: uoff
  mailbox_sync_saved_offset :: uoff
  mailbox_sync_max_offset :: uoff
  locked :: bool
  refcount :: int

text \<open>What the file system holds: a log file with its identity, header and bytes.\<close>

record disk_file =
  d_ino :: nat
  d_dev :: nat
  d_mtime :: int
  d_file_seq :: uint32
  d_prev_file_seq :: uint32
  d_prev_file_offset :: uoff
  d_create_stamp :: int
  d_bytes :: "byte list"

datatype disk_node = Absent | Io_error | Node disk_file

text \<open>
  \<^verbatim>\<open>struct mail_transaction_log\<close> together with what it reaches: the store of log
  files, the fields of the owning index that the log reads and writes
  (\<open>index_in_memory\<close> is \<^verbatim>\<open>MAIL_INDEX_IS_IN_MEMORY(log->index)\<close>), and the
  file system as this process sees it when a call is made:
  \<^item> \<open>disk\<close>: what a path names;
  \<^item> \<open>fd_table\<close>: the file behind each open descriptor;
  \<^item> \<open>lock_busy\<close>: the paths whose lock another process holds;
  \<^item> \<open>create_result\<close>: what materialising a new log at a path yields
    (\<open>None\<close> when the creation fails);
  \<^item> \<open>next_fd\<close>: the descriptor the next successful open returns;
  \<^item> \<open>hdr_size\<close>: the size of the log header, whose declaration is not part of
    the sources.
  The \<open>files\<close> chain (\<^verbatim>\<open>log->files\<close> linked by \<^verbatim>\<open>next\<close>) is the list of its
  addresses, first link first.
\<close>

record mail_transaction_log =
  heap :: "mail_transaction_log_file option list"
  head :: "ptr option"
  files :: "ptr list"
  open_file :: "ptr option"
  index_in_memory :: bool
  index_filepath :: string
  log_locked :: bool
  disk :: "string \<Rightarrow> disk_node"
  fd_table :: "int \<Rightarrow> disk_file option"
  lock_busy :: "string \<Rightarrow> bool"
  create_result :: "string \<Rightarrow> disk_file option"
  next_fd :: int
  hdr_size :: uoff

definition deref :: "mail_transaction_log \<Rightarrow> ptr \<Rightarrow> mail_transaction_log_file option" where
  "deref L p = (if p < length (heap L) then heap L ! p else None)"

definition store :: "ptr \<Rightarrow> mail_transaction_log_file \<Rightarrow> mail_transaction_log \<Rightarrow> mail_transaction_log" where
  "store p f L = L\<lparr>heap := (heap L)[p := Some f]\<rparr>"

text \<open>
  Modelled from the spec: the macro \<^verbatim>\<open>MAIL_TRANSACTION_LOG_FILE_IN_MEMORY(file)\<close> is
  not part of the sources; the data model says that in-memory files have
  \<^verbatim>\<open>fd == -1\<close>.
\<close>

definition MAIL_TRANSACTION_LOG_FILE_IN_MEMORY :: "mail_transaction_log_file \<Rightarrow> bool" where
  "MAIL_TRANSACTION_LOG_FILE_IN_MEMORY f = (fd f = - 1)"

definition MAIL_TRANSACTION_LOG_SUFFIX :: string where
  "MAIL_TRANSACTION_LOG_SUFFIX = ''.log''"

subsection \<open>The log-file operations the manager calls\<close>

text \<open>
  The functions of this subsection are defined in \<^verbatim>\<open>mail-transaction-log-file.c\<close>,
  which is not part of the sources. Each is written from the specification's contract
  for the LogFile component; whatever the contract leaves to the file system is read
  from the state's file-system fields.
\<close>

text \<open>
  Modelled from the spec: the allocation of a LogFile is not part of the sources. A
  newly allocated file is zero-initialised, except that it has no descriptor
  (\<^verbatim>\<open>fd = -1\<close>).
\<close>

definition blank_file :: "string \<Rightarrow> mail_transaction_log_file" where
  "blank_file path =
     \<lparr>filepath = path, fd = - 1, st_ino = 0, st_dev = 0, last_mtime = 0, last_size = 0,
      hdr_file_seq = 0, hdr_prev_file_seq = 0, hdr_prev_file_offset = 0,
      hdr_create_stamp = 0, mmap_base = None, buffer = None, buffer_offset = 0,
      sync_offset = 0, mailbox_sync_saved_offset = 0, mailbox_sync_max_offset = 0,
      locked = False, refcount = 0\<rparr>"

text \<open>
  Modelled from the spec: \<^verbatim>\<open>mail_transaction_log_file_alloc\<close> is not part of the
  sources. It allocates a LogFile for a path: a new cell of the store, no descriptor
  yet, no reference, not locked.
\<close>

definition mail_transaction_log_file_alloc ::
  "string \<Rightarrow> mail_transaction_log \<Rightarrow> ptr \<times> mail_transaction_log" where
  "mail_transaction_log_file_alloc path L =
     (length (heap L), L\<lparr>heap := heap L @ [Some (blank_file path)]\<rparr>)"

text \<open>
  Modelled from the spec: \<^verbatim>\<open>mail_transaction_log_file_alloc_in_memory\<close> is not part
  of the sources. \<open>create_in_memory\<close> returns a LogFile with \<^verbatim>\<open>fd = -1\<close> and a
  growable in-memory buffer as its storage; a new file follows the head
  (\<open>file_seq = head.file_seq + 1\<close>, \<open>prev_file_seq = head.file_seq\<close>,
  \<open>prev_file_offset = head.sync_offset\<close>) or is the first one (\<open>file_seq = 1\<close>),
  and its \<open>sync_offset\<close> is the header size.
\<close>

definition mail_transaction_log_file_alloc_in_memory ::
  "mail_transaction_log \<Rightarrow> ptr \<times> mail_transaction_log" where
  "mail_transaction_log_file_alloc_in_memory L =
     (let f0 = (blank_file [])
                 \<lparr>buffer := Some [], sync_offset := hdr_size L\<rparr>;
          f = (case (case head L of None \<Rightarrow> None | Some h \<Rightarrow> deref L h) of
                 None \<Rightarrow> f0\<lparr>hdr_file_seq := 1\<rparr>
               | Some hf \<Rightarrow> f0\<lparr>hdr_file_seq := hdr_file_seq hf + 1,
                               hdr_prev_file_seq := hdr_file_seq hf,
                               hdr_prev_file_offset := sync_offset hf\<rparr>)
      in (length (heap L), L\<lparr>heap := heap L @ [Some f]\<rparr>))"

text \<open>
  Modelled from the spec: \<^verbatim>\<open>mail_transaction_log_file_free\<close> is not part of the
  sources. The purge destroys a LogFile: its cell is emptied and it leaves the
  \<open>files\<close> chain. The caller's pointer variable is set to \<^verbatim>\<open>NULL\<close> by the callers
  below.
\<close>

definition mail_transaction_log_file_free ::
  "ptr \<Rightarrow> mail_transaction_log \<Rightarrow> error + mail_transaction_log" where
  "mail_transaction_log_file_free p L =
     (case deref L p of
        None \<Rightarrow> Inl Null_deref
      | Some f \<Rightarrow> Inr (L\<lparr>heap := (heap L)[p := None], files := remove1 p (files L)\<rparr>))"

text \<open>
  Modelled from the spec: what opening or creating a log file loads into the LogFile
  (neither function is part of the sources): the descriptor, the stat signature, the
  header metadata, and \<open>sync_offset\<close> at the end of the header.
\<close>

definition load_disk_file ::
  "disk_file \<Rightarrow> int \<Rightarrow> uoff \<Rightarrow> mail_transaction_log_file \<Rightarrow> mail_transaction_log_file" where
  "load_disk_file d newfd hsize f =
     f\<lparr>fd := newfd, st_ino := d_ino d, st_dev := d_dev d, last_mtime := d_mtime d,
       last_size := of_nat (length (d_bytes d)),
       hdr_file_seq := d_file_seq d, hdr_prev_file_seq := d_prev_file_seq d,
       hdr_prev_file_offset := d_prev_file_offset d,
       hdr_create_stamp := d_create_stamp d, sync_offset := hsize\<rparr>"

text \<open>
  Modelled from the spec: \<^verbatim>\<open>mail_transaction_log_file_open\<close> is not part of the
  sources. \<open>open\<close> opens the named path and loads the metadata of its header; a
  missing file is not an error (0), a failing system call is (-1), success is 1.
  The second argument of the C function is not described by the specification and
  is not used.
\<close>

definition mail_transaction_log_file_open ::
  "ptr \<Rightarrow> bool \<Rightarrow> mail_transaction_log \<Rightarrow> error + (int \<times> mail_transaction_log)" where
  "mail_transaction_log_file_open p check_existing L =
     (case deref L p of
        None \<Rightarrow> Inl Null_deref
      | Some f \<Rightarrow>
          (case disk L (filepath f) of
             Absent \<Rightarrow> Inr (0, L)
           | Io_error \<Rightarrow> Inr (- 1, L)
           | Node d \<Rightarrow>
               Inr (1, (store p (load_disk_file d (next_fd L) (hdr_size L) f) L)
                         \<lparr>fd_table := (fd_table L)(next_fd L := Some d),
                          next_fd := next_fd L + 1\<rparr>)))"

text \<open>
  Modelled from the spec: \<^verbatim>\<open>mail_transaction_log_file_create\<close> is not part of the
  sources. \<open>create\<close> materialises a new log file at the path, or adopts the file
  another process created there first; which of the two happened, and whether the
  creation failed, is the file system's answer \<open>create_result\<close>. Success is 0,
  failure is -1.
\<close>

definition mail_transaction_log_file_create ::
  "ptr \<Rightarrow> mail_transaction_log \<Rightarrow> error + (int \<times> mail_transaction_log)" where
  "mail_transaction_log_file_create p L =
     (case deref L p of
        None \<Rightarrow> Inl Null_deref
      | Some f \<Rightarrow>
          (case create_result L (filepath f) of
             None \<Rightarrow> Inr (- 1, L)
           | Some d \<Rightarrow>
               Inr (0, (store p (load_disk_file d (next_fd L) (hdr_size L) f) L)
                         \<lparr>disk := (disk L)(filepath f := Node d),
                          fd_table := (fd_table L)(next_fd L := Some d),
                          next_fd := next_fd L + 1\<rparr>)))"

text \<open>
  Modelled from the spec: \<^verbatim>\<open>mail_transaction_log_file_lock\<close> is not part of the
  sources. \<open>lock\<close> acquires the exclusive whole-file lock or fails after the timeout
  (-1), which happens when another process holds it; an in-memory file has no other
  process.
\<close>

definition mail_transaction_log_file_lock ::
  "ptr option \<Rightarrow> mail_transaction_log \<Rightarrow> error + (int \<times> mail_transaction_log)" where
  "mail_transaction_log_file_lock file L =
     (case file of
        None \<Rightarrow> Inl Null_deref
      | Some p \<Rightarrow>
          (case deref L p of
             None \<Rightarrow> Inl Null_deref
           | Some f \<Rightarrow>
               if \<not> MAIL_TRANSACTION_LOG_FILE_IN_MEMORY f \<and> lock_busy L (filepath f)
               then Inr (- 1, L)
               else Inr (0, store p (f\<lparr>locked := True\<rparr>) L)))"

text \<open>
  Modelled from the spec: \<^verbatim>\<open>mail_transaction_log_file_unlock\<close> is not part of the
  sources. \<open>unlock\<close> releases the whole-file lock.
\<close>

definition mail_transaction_log_file_unlock ::
  "ptr option \<Rightarrow> mail_transaction_log \<Rightarrow> error + mail_transaction_log" where
  "mail_transaction_log_file_unlock file L =
     (case file of
        None \<Rightarrow> Inl Null_deref
      | Some p \<Rightarrow>
          (case deref L p of
             None \<Rightarrow> Inl Null_deref
           | Some f \<Rightarrow> Inr (store p (f\<lparr>locked := False\<rparr>) L)))"

text \<open>
  Modelled from the spec: \<^verbatim>\<open>mail_transaction_log_file_map\<close> is not part of the
  sources. \<open>map\<close> makes a byte range accessible in memory; called up to the end
  of the file it maps the whole file and \<open>sync_offset\<close> advances to the end of
  file. A failing system call is -1, success is 1. The storage of an in-memory file
  is its buffer already.
\<close>

definition mail_transaction_log_file_map ::
  "ptr option \<Rightarrow> uoff \<Rightarrow> uoff \<Rightarrow> mail_transaction_log \<Rightarrow> error + (int \<times> mail_transaction_log)" where
  "mail_transaction_log_file_map file start_offset end_offset L =
     (case file of
        None \<Rightarrow> Inl Null_deref
      | Some p \<Rightarrow>
          (case deref L p of
             None \<Rightarrow> Inl Null_deref
           | Some f \<Rightarrow>
               if MAIL_TRANSACTION_LOG_FILE_IN_MEMORY f then Inr (1, L)
               else (case fd_table L (fd f) of
                       None \<Rightarrow> Inr (- 1, L)
                     | Some d \<Rightarrow>
                         Inr (1, store p (f\<lparr>mmap_base := Some (d_bytes d), buffer := None,
                                             sync_offset := of_nat (length (d_bytes d))\<rparr>) L))))"

text \<open>
  Modelled from the spec: \<^verbatim>\<open>mail_transaction_log_file_read\<close> is not part of the
  sources. \<open>read\<close> reads the file's contents from disk into the in-memory buffer
  up to the current end of file and returns the number of bytes read; a failing
  system call is -1.
\<close>

definition mail_transaction_log_file_read ::
  "ptr \<Rightarrow> uoff \<Rightarrow> mail_transaction_log \<Rightarrow> error + (int \<times> mail_transaction_log)" where
  "mail_transaction_log_file_read p offset L =
     (case deref L p of
        None \<Rightarrow> Inl Null_deref
      | Some f \<Rightarrow>
          (case fd_table L (fd f) of
             None \<Rightarrow> Inr (- 1, L)
           | Some d \<Rightarrow>
               Inr (int (length (drop (unat offset) (d_bytes d))),
                    store p (f\<lparr>buffer := Some (drop (unat offset) (d_bytes d)),
                               buffer_offset := offset\<rparr>) L)))"

text \<open>
  Modelled from the spec: the accessor is not part of the sources. The byte of a file
  at an offset, as callers address it: in the buffer from \<open>buffer_offset\<close> on, in the
  mapping before it.
\<close>

definition file_byte :: "mail_transaction_log_file \<Rightarrow> nat \<Rightarrow> byte option" where
  "file_byte f i =
     (case buffer f of
        Some b \<Rightarrow>
          if unat (buffer_offset f) \<le> i
          then (if i - unat (buffer_offset f) < length b
                then Some (b ! (i - unat (buffer_offset f))) else None)
          else (case mmap_base f of
                  Some m \<Rightarrow> if i < length m then Some (m ! i) else None
                | None \<Rightarrow> None)
      | None \<Rightarrow>
          (case mmap_base f of
             Some m \<Rightarrow> if i < length m then Some (m ! i) else None
           | None \<Rightarrow> None))"

subsection \<open>The log manager\<close>

text \<open>
  \<^verbatim>\<open>mail_transaction_log_alloc\<close>: a log bound to an index, with no files yet. The
  dotlock settings it fills in are read only by the absent file operations. The
  file-system fields start as an empty directory and are set by whoever describes the
  environment of a call.
\<close>

definition mail_transaction_log_alloc :: "bool \<Rightarrow> string \<Rightarrow> mail_transaction_log" where
  "mail_transaction_log_alloc in_memory path =
     \<lparr>heap = [], head = None, files = [], open_file = None,
      index_in_memory = in_memory, index_filepath = path, log_locked = False,
      disk = (\<lambda>_. Absent), fd_table = (\<lambda>_. None), lock_busy = (\<lambda>_. False),
      create_result = (\<lambda>_. None), next_fd = 3, hdr_size = 24\<rparr>"

text \<open>
  \<^verbatim>\<open>mail_transaction_log_set_head\<close>. The file argument may be \<^verbatim>\<open>NULL\<close> (\<open>None\<close>):
  \<^verbatim>\<open>mail_transaction_log_create\<close> can call it so.
\<close>

definition mail_transaction_log_set_head ::
  "mail_transaction_log \<Rightarrow> ptr option \<Rightarrow> error + mail_transaction_log" where
  "mail_transaction_log_set_head L file =
     (if head L = file then Inl Assert_failed
      else (case file of
              None \<Rightarrow> Inl Null_deref
            | Some p \<Rightarrow>
                (case deref L p of
                   None \<Rightarrow> Inl Null_deref
                 | Some f \<Rightarrow>
                     Inr ((store p (f\<lparr>refcount := refcount f + 1\<rparr>) L)\<lparr>head := Some p\<rparr>))))"

text \<open>
  \<^verbatim>\<open>if (log->open_file != NULL) mail_transaction_log_file_free(&log->open_file);\<close>
\<close>

definition free_open_file :: "mail_transaction_log \<Rightarrow> error + mail_transaction_log" where
  "free_open_file L =
     (case open_file L of
        None \<Rightarrow> Inr L
      | Some p \<Rightarrow>
          (case mail_transaction_log_file_free p L of
             Inl e \<Rightarrow> Inl e
           | Inr L' \<Rightarrow> Inr (L'\<lparr>open_file := None\<rparr>)))"

definition mail_transaction_log_open ::
  "mail_transaction_log \<Rightarrow> error + (int \<times> mail_transaction_log)" where
  "mail_transaction_log_open L =
     (case free_open_file L of
        Inl e \<Rightarrow> Inl e
      | Inr L1 \<Rightarrow>
          if index_in_memory L1 then Inr (0, L1)
          else
            (case mail_transaction_log_file_alloc
                    (index_filepath L1 @ MAIL_TRANSACTION_LOG_SUFFIX) L1 of
               (file, L2) \<Rightarrow>
                 (case mail_transaction_log_file_open file False L2 of
                    Inl e \<Rightarrow> Inl e
                  | Inr (ret, L3) \<Rightarrow>
                      if ret \<le> 0 then Inr (ret, L3\<lparr>open_file := Some file\<rparr>)
                      else
                        (case mail_transaction_log_set_head L3 (Some file) of
                           Inl e \<Rightarrow> Inl e
                         | Inr L4 \<Rightarrow> Inr (1, L4)))))"

text \<open>
  The block of \<^verbatim>\<open>mail_transaction_log_create\<close> that carries the stat signature of
  \<open>open_file\<close> over to the new file and frees \<open>open_file\<close>.
\<close>

definition remember_open_file ::
  "ptr \<Rightarrow> mail_transaction_log \<Rightarrow> error + mail_transaction_log" where
  "remember_open_file file L =
     (case open_file L of
        None \<Rightarrow> Inr L
      | Some ofp \<Rightarrow>
          (case deref L ofp of
             None \<Rightarrow> Inl Null_deref
           | Some opened \<Rightarrow>
               (case deref L file of
                  None \<Rightarrow> Inl Null_deref
                | Some f \<Rightarrow>
                    free_open_file
                      (store file (f\<lparr>st_ino := st_ino opened, st_dev := st_dev opened,
                                      last_size := last_size opened,
                                      last_mtime := last_mtime opened\<rparr>) L))))"

definition mail_transaction_log_create ::
  "mail_transaction_log \<Rightarrow> error + (int \<times> mail_transaction_log)" where
  "mail_transaction_log_create L =
     (if index_in_memory L then
        (case mail_transaction_log_file_alloc_in_memory L of
           (file, L1) \<Rightarrow>
             (case mail_transaction_log_set_head L1 (Some file) of
                Inl e \<Rightarrow> Inl e
              | Inr L2 \<Rightarrow> Inr (0, L2)))
      else
        (case mail_transaction_log_file_alloc
                (index_filepath L @ MAIL_TRANSACTION_LOG_SUFFIX) L of
           (file, L1) \<Rightarrow>
             (case remember_open_file file L1 of
                Inl e \<Rightarrow> Inl e
              | Inr L2 \<Rightarrow>
                  (case mail_transaction_log_file_create file L2 of
                     Inl e \<Rightarrow> Inl e
                   | Inr (ret, L3) \<Rightarrow>
                       (case (if ret < 0
                              then (case mail_transaction_log_file_free file L3 of
                                      Inl e \<Rightarrow> Inl e
                                    | Inr L4 \<Rightarrow> Inr (None, L4))
                              else Inr (Some file, L3)) of
                          Inl e \<Rightarrow> Inl e
                        | Inr (file', L4) \<Rightarrow>
                            (case mail_transaction_log_set_head L4 file' of
                               Inl e \<Rightarrow> Inl e
                             | Inr L5 \<Rightarrow> Inr (1, L5)))))))"

text \<open>
  \<^verbatim>\<open>mail_transaction_log_move_to_memory\<close>. A failing \<^verbatim>\<open>munmap\<close> or \<^verbatim>\<open>close\<close>
  only reports through the index's error channel, which is not modelled; the mapping
  and the descriptor are gone either way.
\<close>

definition mail_transaction_log_move_to_memory ::
  "mail_transaction_log \<Rightarrow> error + (int \<times> mail_transaction_log)" where
  "mail_transaction_log_move_to_memory L =
     (case head L of
        None \<Rightarrow> Inr (0, L)
      | Some h \<Rightarrow>
          (case deref L h of
             None \<Rightarrow> Inl Null_deref
           | Some f \<Rightarrow>
               if MAIL_TRANSACTION_LOG_FILE_IN_MEMORY f then Inr (0, L)
               else
                 (case mail_transaction_log_file_read h 0
                         (store h (f\<lparr>buffer_offset := 0, buffer := None, mmap_base := None\<rparr>) L) of
                    Inl e \<Rightarrow> Inl e
                  | Inr (ret, L1) \<Rightarrow>
                      if ret \<le> 0 then Inr (- 1, L1)
                      else
                        (case deref L1 h of
                           None \<Rightarrow> Inl Null_deref
                         | Some f1 \<Rightarrow>
                             Inr (0, (store h (f1\<lparr>fd := - 1\<rparr>) L1)
                                       \<lparr>fd_table := (fd_table L1)(fd f1 := None)\<rparr>)))))"

text \<open>
  \<^verbatim>\<open>mail_transaction_logs_clean\<close>: the loop walks the chain as it was when the loop
  started (\<^verbatim>\<open>next\<close> is read before the file is freed).
\<close>

fun logs_clean_loop :: "ptr list \<Rightarrow> mail_transaction_log \<Rightarrow> error + mail_transaction_log" where
  "logs_clean_loop [] L = Inr L"
| "logs_clean_loop (p # ps) L =
     (case deref L p of
        None \<Rightarrow> Inl Null_deref
      | Some f \<Rightarrow>
          if refcount f < 0 then Inl Assert_failed
          else if refcount f = 0 then
            (case mail_transaction_log_file_free p L of
               Inl e \<Rightarrow> Inl e
             | Inr L' \<Rightarrow> logs_clean_loop ps L')
          else logs_clean_loop ps L)"

definition mail_transaction_logs_clean ::
  "mail_transaction_log \<Rightarrow> error + mail_transaction_log" where
  "mail_transaction_logs_clean L = logs_clean_loop (files L) L"

text \<open>
  \<^verbatim>\<open>if (--file->refcount == 0) mail_transaction_logs_clean(log);\<close> with the branch
  taken otherwise as a parameter. The result says whether the count reached zero.
\<close>

definition unref_and_clean ::
  "ptr \<Rightarrow> (mail_transaction_log \<Rightarrow> error + mail_transaction_log) \<Rightarrow>
   mail_transaction_log \<Rightarrow> error + (bool \<times> mail_transaction_log)" where
  "unref_and_clean p otherwise L =
     (case deref L p of
        None \<Rightarrow> Inl Null_deref
      | Some f \<Rightarrow>
          if refcount f - 1 = 0 then
            (case mail_transaction_logs_clean (store p (f\<lparr>refcount := refcount f - 1\<rparr>) L) of
               Inl e \<Rightarrow> Inl e
             | Inr L' \<Rightarrow> Inr (True, L'))
          else
            (case otherwise (store p (f\<lparr>refcount := refcount f - 1\<rparr>) L) of
               Inl e \<Rightarrow> Inl e
             | Inr L' \<Rightarrow> Inr (False, L')))"

text \<open>
  \<^verbatim>\<open>mail_transaction_log_rotate\<close>. \<open>rotate_new_file\<close> is its \<^verbatim>\<open>if\<close>/\<^verbatim>\<open>else\<close> block,
  which allocates the new file; its result is the new file, or \<open>None\<close> where the
  block returns -1. When \<^verbatim>\<open>fstat\<close> fails, the C code reads \<^verbatim>\<open>file->filepath\<close> for the
  error message before \<open>file\<close> is assigned: a read through an uninitialised pointer.
\<close>

definition rotate_new_file ::
  "mail_transaction_log \<Rightarrow> mail_transaction_log_file \<Rightarrow>
   error + (ptr option \<times> mail_transaction_log)" where
  "rotate_new_file L hf =
     (if index_in_memory L
      then (case mail_transaction_log_file_alloc_in_memory L of
              (file, L1) \<Rightarrow> Inr (Some file, L1))
      else
        (case fd_table L (fd hf) of
           None \<Rightarrow> Inl Null_deref
         | Some st \<Rightarrow>
             (case mail_transaction_log_file_alloc (filepath hf) L of
                (file, L1) \<Rightarrow>
                  (case deref L1 file of
                     None \<Rightarrow> Inl Null_deref
                   | Some f \<Rightarrow>
                       (case mail_transaction_log_file_create file
                               (store file
                                  (f\<lparr>st_dev := d_dev st, st_ino := d_ino st,
                                     last_mtime := d_mtime st,
                                     last_size := of_nat (length (d_bytes st))\<rparr>)
                                  L1) of
                          Inl e \<Rightarrow> Inl e
                        | Inr (ret, L2) \<Rightarrow>
                            if ret < 0 then
                              (case mail_transaction_log_file_free file L2 of
                                 Inl e \<Rightarrow> Inl e
                               | Inr L3 \<Rightarrow> Inr (None, L3))
                            else Inr (Some file, L2))))))"

definition mail_transaction_log_rotate ::
  "mail_transaction_log \<Rightarrow> error + (int \<times> mail_transaction_log)" where
  "mail_transaction_log_rotate L =
     (case head L of
        None \<Rightarrow> Inl Null_deref
      | Some h \<Rightarrow>
          (case deref L h of
             None \<Rightarrow> Inl Null_deref
           | Some hf \<Rightarrow>
               if \<not> locked hf then Inl Assert_failed
               else
                 (case rotate_new_file L hf of
                    Inl e \<Rightarrow> Inl e
                  | Inr (None, L3) \<Rightarrow> Inr (- 1, L3)
                  | Inr (Some file, L3) \<Rightarrow>
                      (case (case head L3 of
                               None \<Rightarrow> Inl Null_deref
                             | Some h3 \<Rightarrow>
                                 unref_and_clean h3
                                   (mail_transaction_log_file_unlock (Some h3)) L3) of
                         Inl e \<Rightarrow> Inl e
                       | Inr (_, L4) \<Rightarrow>
                           (case mail_transaction_log_set_head L4 (Some file) of
                              Inl e \<Rightarrow> Inl e
                            | Inr L5 \<Rightarrow> Inr (0, L5))))))"

text \<open>
  \<^verbatim>\<open>mail_transaction_log_refresh\<close>. \<^verbatim>\<open>nfs_safe_stat\<close> fails on a missing path and
  on a failing system call; \<^verbatim>\<open>CMP_DEV_T\<close> is equality of device numbers.
\<close>

definition mail_transaction_log_refresh ::
  "mail_transaction_log \<Rightarrow> error + (int \<times> mail_transaction_log)" where
  "mail_transaction_log_refresh L =
     (case head L of
        None \<Rightarrow> Inl Assert_failed
      | Some h \<Rightarrow>
          (case deref L h of
             None \<Rightarrow> Inl Null_deref
           | Some hf \<Rightarrow>
               if MAIL_TRANSACTION_LOG_FILE_IN_MEMORY hf then Inr (0, L)
               else
                 (case disk L (index_filepath L @ MAIL_TRANSACTION_LOG_SUFFIX) of
                    Absent \<Rightarrow> Inr (- 1, L)
                  | Io_error \<Rightarrow> Inr (- 1, L)
                  | Node st \<Rightarrow>
                      if st_ino hf = d_ino st \<and> st_dev hf = d_dev st then Inr (0, L)
                      else
                        (case mail_transaction_log_file_alloc
                                (index_filepath L @ MAIL_TRANSACTION_LOG_SUFFIX) L of
                           (file, L1) \<Rightarrow>
                             (case mail_transaction_log_file_open file False L1 of
                                Inl e \<Rightarrow> Inl e
                              | Inr (ret, L2) \<Rightarrow>
                                  if ret \<le> 0 then
                                    (case mail_transaction_log_file_free file L2 of
                                       Inl e \<Rightarrow> Inl e
                                     | Inr L3 \<Rightarrow> Inr (- 1, L3))
                                  else
                                    (case deref L2 file of
                                       None \<Rightarrow> Inl Null_deref
                                     | Some f \<Rightarrow>
                                         if locked f then Inl Assert_failed
                                         else
                                           (case (case head L2 of
                                                    None \<Rightarrow> Inl Null_deref
                                                  | Some h2 \<Rightarrow> unref_and_clean h2 Inr L2) of
                                              Inl e \<Rightarrow> Inl e
                                            | Inr (_, L3) \<Rightarrow>
                                                (case mail_transaction_log_set_head L3 (Some file) of
                                                   Inl e \<Rightarrow> Inl e
                                                 | Inr L4 \<Rightarrow> Inr (0, L4)))))))))"

definition mail_transaction_log_get_mailbox_sync_pos ::
  "mail_transaction_log \<Rightarrow> error + (uint32 \<times> uoff)" where
  "mail_transaction_log_get_mailbox_sync_pos L =
     (case head L of
        None \<Rightarrow> Inl Null_deref
      | Some h \<Rightarrow>
          (case deref L h of
             None \<Rightarrow> Inl Null_deref
           | Some hf \<Rightarrow> Inr (hdr_file_seq hf, mailbox_sync_max_offset hf)))"


text \<open>
  \<^verbatim>\<open>mail_transaction_log_find_file\<close>. The result is the return code and
  \<^verbatim>\<open>*file_r\<close>, which is written only when a file is found. \<open>find_in_chain\<close> is the
  loop over \<^verbatim>\<open>log->files\<close>; \<open>find_file_lookup\<close> is the rest of the function from
  that loop on (the chain, then the \<^verbatim>\<open>.log.2\<close> file).
\<close>

fun find_in_chain :: "mail_transaction_log \<Rightarrow> ptr list \<Rightarrow> uint32 \<Rightarrow> error + ptr option" where
  "find_in_chain L [] file_seq = Inr None"
| "find_in_chain L (p # ps) file_seq =
     (case deref L p of
        None \<Rightarrow> Inl Null_deref
      | Some f \<Rightarrow>
          if hdr_file_seq f = file_seq then Inr (Some p)
          else find_in_chain L ps file_seq)"

definition find_file_lookup ::
  "mail_transaction_log \<Rightarrow> uint32 \<Rightarrow> error + (int \<times> ptr option \<times> mail_transaction_log)" where
  "find_file_lookup L file_seq =
     (case find_in_chain L (files L) file_seq of
        Inl e \<Rightarrow> Inl e
      | Inr (Some p) \<Rightarrow> Inr (1, Some p, L)
      | Inr None \<Rightarrow>
          if index_in_memory L then Inr (0, None, L)
          else
            (case mail_transaction_log_file_alloc
                    (index_filepath L @ MAIL_TRANSACTION_LOG_SUFFIX @ ''.2'') L of
               (file, L1) \<Rightarrow>
                 (case mail_transaction_log_file_open file True L1 of
                    Inl e \<Rightarrow> Inl e
                  | Inr (ret, L2) \<Rightarrow>
                      if ret \<le> 0 then Inr (ret, None, L2)
                      else
                        (case deref L2 file of
                           None \<Rightarrow> Inl Null_deref
                         | Some f \<Rightarrow>
                             if hdr_file_seq f \<noteq> file_seq then Inr (0, None, L2)
                             else Inr (1, Some file, L2)))))"

definition mail_transaction_log_find_file ::
  "mail_transaction_log \<Rightarrow> uint32 \<Rightarrow> error + (int \<times> ptr option \<times> mail_transaction_log)" where
  "mail_transaction_log_find_file L file_seq =
     (case head L of
        None \<Rightarrow> Inl Null_deref
      | Some h \<Rightarrow>
          (case deref L h of
             None \<Rightarrow> Inl Null_deref
           | Some hf \<Rightarrow>
               if file_seq > hdr_file_seq hf then
                 (if locked hf then Inr (0, None, L)
                  else
                    (case mail_transaction_log_refresh L of
                       Inl e \<Rightarrow> Inl e
                     | Inr (ret, L1) \<Rightarrow>
                         if ret < 0 then Inr (- 1, None, L1)
                         else
                           (case (case head L1 of None \<Rightarrow> None | Some h1 \<Rightarrow> deref L1 h1) of
                              None \<Rightarrow> Inl Null_deref
                            | Some hf1 \<Rightarrow>
                                if file_seq > hdr_file_seq hf1 then Inr (0, None, L1)
                                else find_file_lookup L1 file_seq)))
               else find_file_lookup L file_seq))"

text \<open>
  The order of search as the specification words it (the \<open>files\<close> chain, then the
  \<^verbatim>\<open>.2\<close> rotation-archive path), written without the loop and the calls, to be
  compared with \<open>find_file_lookup\<close>: the first file of the chain that has the
  sequence is the file found, and nothing is opened; failing that, an in-memory index
  has nothing more to look at; otherwise a LogFile is allocated for the \<^verbatim>\<open>.log.2\<close>
  path and opened, and it is the file found when its sequence is the one looked for.
\<close>

definition chain_then_archive ::
  "mail_transaction_log \<Rightarrow> uint32 \<Rightarrow> int \<times> ptr option \<times> mail_transaction_log" where
  "chain_then_archive L file_seq =
     (case List.find (\<lambda>q. map_option hdr_file_seq (deref L q) = Some file_seq) (files L) of
        Some p \<Rightarrow> (1, Some p, L)
      | None \<Rightarrow>
          if index_in_memory L then (0, None, L)
          else
            (case disk L (index_filepath L @ ''.log.2'') of
               Absent \<Rightarrow>
                 (0, None, L\<lparr>heap := heap L @ [Some (blank_file (index_filepath L @ ''.log.2''))]\<rparr>)
             | Io_error \<Rightarrow>
                 (- 1, None, L\<lparr>heap := heap L @ [Some (blank_file (index_filepath L @ ''.log.2''))]\<rparr>)
             | Node d \<Rightarrow>
                 (if d_file_seq d = file_seq then 1 else 0,
                  if d_file_seq d = file_seq then Some (length (heap L)) else None,
                  L\<lparr>heap := heap L @ [Some (load_disk_file d (next_fd L) (hdr_size L)
                                             (blank_file (index_filepath L @ ''.log.2'')))],
                    fd_table := (fd_table L)(next_fd L := Some d),
                    next_fd := next_fd L + 1\<rparr>)))"

text \<open>
  \<^verbatim>\<open>mail_transaction_log_lock_head\<close>: one pass of the body of its \<^verbatim>\<open>for (;;)\<close> loop
  either leaves the loop with the return code or goes round again. The loop has no
  bound in the C code, so the function is partial: \<open>None\<close> is a run that never
  returns.
\<close>

datatype lock_head_step = Leave int mail_transaction_log | Again mail_transaction_log

definition lock_head_body :: "mail_transaction_log \<Rightarrow> error + lock_head_step" where
  "lock_head_body L =
     (case mail_transaction_log_file_lock (head L) L of
        Inl e \<Rightarrow> Inl e
      | Inr (lret, L1) \<Rightarrow>
          if lret < 0 then Inr (Leave (- 1) L1)
          else
            (case head L of
               None \<Rightarrow> Inl Null_deref
             | Some file \<Rightarrow>
                 (case deref L1 file of
                    None \<Rightarrow> Inl Null_deref
                  | Some f \<Rightarrow>
                      (case mail_transaction_log_refresh
                              (store file (f\<lparr>refcount := refcount f + 1\<rparr>) L1) of
                         Inl e \<Rightarrow> Inl e
                       | Inr (ret, L2) \<Rightarrow>
                           (case unref_and_clean file Inr L2 of
                              Inl e \<Rightarrow> Inl e
                            | Inr (freed, L3) \<Rightarrow>
                                if ret = 0 \<and> head L3 = (if freed then None else Some file)
                                then Inr (Leave ret L3)
                                else
                                  (case (if freed then Inr L3
                                         else mail_transaction_log_file_unlock (Some file) L3) of
                                     Inl e \<Rightarrow> Inl e
                                   | Inr L4 \<Rightarrow>
                                       if ret < 0 then Inr (Leave ret L4)
                                       else Inr (Again L4)))))))"

partial_function (option) mail_transaction_log_lock_head ::
  "mail_transaction_log \<Rightarrow> (error + (int \<times> mail_transaction_log)) option" where
  "mail_transaction_log_lock_head L =
     (case lock_head_body L of
        Inl e \<Rightarrow> Some (Inl e)
      | Inr (Leave ret L') \<Rightarrow> Some (Inr (ret, L'))
      | Inr (Again L') \<Rightarrow> mail_transaction_log_lock_head L')"


definition mail_transaction_log_sync_unlock ::
  "mail_transaction_log \<Rightarrow> error + mail_transaction_log" where
  "mail_transaction_log_sync_unlock L =
     (if \<not> log_locked L then Inl Assert_failed
      else mail_transaction_log_file_unlock (head L) (L\<lparr>log_locked := False\<rparr>))"

subsection \<open>The configuration filter\<close>

text \<open>
  \<^verbatim>\<open>struct config_filter\<close>: \<^verbatim>\<open>service\<close> and \<^verbatim>\<open>local_name\<close> are nullable strings,
  the two bit counts are \<^verbatim>\<open>unsigned int\<close>. The networks are not read by the function
  below.
\<close>

record config_filter =
  service :: "string option"
  local_name :: "string option"
  local_bits :: uint32
  remote_bits :: uint32
  local_net :: "byte list"
  remote_net :: "byte list"

text \<open>
  \<^verbatim>\<open>config_filter_is_superset\<close>: the result is the list of warnings written with
  \<^verbatim>\<open>i_warning\<close> and the value returned.
\<close>

definition config_filter_is_superset :: "config_filter \<Rightarrow> config_filter \<Rightarrow> string list \<times> bool" where
  "config_filter_is_superset sup' filter' =
     (if local_bits sup' > local_bits filter' then ([], False)
      else if remote_bits sup' > remote_bits filter' then ([], False)
      else if local_name sup' \<noteq> None \<and> local_name filter' = None
      then ([the (local_name sup')], False)
      else if service sup' \<noteq> None \<and> service filter' = None then ([], False)
      else ([], True))"

subsection \<open>Example states\<close>

text \<open>
  A disk-backed log whose head is the file at the canonical path, opened on
  descriptor 5, with one reference.
\<close>

definition example_disk_file :: disk_file where
  "example_disk_file =
     \<lparr>d_ino = 10, d_dev = 1, d_mtime = 0, d_file_seq = 2, d_prev_file_seq = 1,
      d_prev_file_offset = 64, d_create_stamp = 0, d_bytes = [1, 2, 3, 4]\<rparr>"

definition example_file :: mail_transaction_log_file where
  "example_file =
     (blank_file ''dovecot.index.log'')
       \<lparr>fd := 5, st_ino := 10, st_dev := 1, hdr_file_seq := 2, hdr_prev_file_seq := 1,
        hdr_prev_file_offset := 64, sync_offset := 100,
        mailbox_sync_saved_offset := 30, mailbox_sync_max_offset := 40, refcount := 1\<rparr>"

definition example_log :: mail_transaction_log where
  "example_log =
     (mail_transaction_log_alloc False ''dovecot.index'')
       \<lparr>heap := [Some example_file], head := Some 0,
        disk := (\<lambda>p. if p = ''dovecot.index.log'' then Node example_disk_file else Absent),
        fd_table := (\<lambda>n. if n = 5 then Some example_disk_file else None)\<rparr>"

text \<open>
  The same log with an older file retained in the \<open>files\<close> chain, opened on
  descriptor 4, and the state \<^verbatim>\<open>mail_transaction_log_move_to_memory\<close> leaves it in.
\<close>

definition older_disk_file :: disk_file where
  "older_disk_file =
     \<lparr>d_ino = 9, d_dev = 1, d_mtime = 0, d_file_seq = 1, d_prev_file_seq = 0,
      d_prev_file_offset = 0, d_create_stamp = 0, d_bytes = [7, 8]\<rparr>"

definition older_file :: mail_transaction_log_file where
  "older_file =
     (blank_file ''dovecot.index.log.2'')
       \<lparr>fd := 4, st_ino := 9, st_dev := 1, hdr_file_seq := 1, sync_offset := 64, refcount := 1\<rparr>"

definition history_log :: mail_transaction_log where
  "history_log =
     example_log
       \<lparr>heap := [Some example_file, Some older_file], files := [1],
        fd_table := (\<lambda>n. if n = 5 then Some example_disk_file
                          else if n = 4 then Some older_disk_file else None)\<rparr>"

definition history_log_moved :: mail_transaction_log where
  "history_log_moved =
     history_log
       \<lparr>heap := [Some (example_file\<lparr>buffer := Some [1, 2, 3, 4], fd := - 1\<rparr>), Some older_file],
        fd_table := (fd_table history_log)(5 := None)\<rparr>"

text \<open>
  An index that is in memory while the log still holds the file of an earlier
  \<^verbatim>\<open>mail_transaction_log_open\<close> in \<open>open_file\<close>; and a disk-backed log that has
  not been opened yet, with a log file at the canonical path.
\<close>

definition stale_open_log :: mail_transaction_log where
  "stale_open_log =
     (mail_transaction_log_alloc True ''dovecot.index'')
       \<lparr>heap := [Some (blank_file ''dovecot.index.log'')], open_file := Some 0\<rparr>"

definition unopened_log :: mail_transaction_log where
  "unopened_log =
     (mail_transaction_log_alloc False ''dovecot.index'')
       \<lparr>disk := (\<lambda>p. if p = ''dovecot.index.log'' then Node example_disk_file else Absent)\<rparr>"




text \<open>
  The example log with its head locked, after another process has put a newer log file
  at the canonical path; and the state \<^verbatim>\<open>mail_transaction_log_refresh\<close> leaves it in.
\<close>

definition newer_disk_file :: disk_file where
  "newer_disk_file =
     \<lparr>d_ino = 11, d_dev = 1, d_mtime = 0, d_file_seq = 3, d_prev_file_seq = 2,
      d_prev_file_offset = 100, d_create_stamp = 0, d_bytes = [9]\<rparr>"

definition replaced_log :: mail_transaction_log where
  "replaced_log =
     example_log
       \<lparr>heap := [Some (example_file\<lparr>locked := True\<rparr>)],
        disk := (\<lambda>p. if p = ''dovecot.index.log'' then Node newer_disk_file else Absent)\<rparr>"


text \<open>
  The example log when the head's descriptor cannot be read any more: locking works,
  mapping the file fails.
\<close>

definition unreadable_log :: mail_transaction_log where
  "unreadable_log = example_log\<lparr>fd_table := (\<lambda>_. None)\<rparr>"

text \<open>
  The example log when the head's file on disk is empty.
\<close>

definition empty_file_log :: mail_transaction_log where
  "empty_file_log =
     example_log\<lparr>fd_table := (\<lambda>n. if n = 5 then Some (example_disk_file\<lparr>d_bytes := []\<rparr>) else None)\<rparr>"





text \<open>
  Logs for the search of a file. \<open>chained_log\<close> has its head and an older file
  linked in the \<open>files\<close> chain, newest first, and the head's file at the canonical
  path; \<open>vanished_log\<close> is the same with nothing on disk. In \<open>lagging_log\<close> other
  processes have rotated the log: the canonical path names a file of sequence 5 and
  the \<^verbatim>\<open>.log.2\<close> path one of sequence 4. \<open>lagging_log_refreshed\<close> is the state the
  refresh leaves it in, and \<open>lagging_log_found\<close> the state after the \<^verbatim>\<open>.log.2\<close> file
  has been opened as well. \<open>wrapped_log\<close> has a head of the largest sequence, its
  file at the canonical path and a \<^verbatim>\<open>.log.2\<close> path that cannot be opened;
  \<open>wrapped_log_searched\<close> is the state after the attempt to open it.
\<close>

definition chained_log :: mail_transaction_log where
  "chained_log = history_log\<lparr>files := [0, 1]\<rparr>"

definition vanished_log :: mail_transaction_log where
  "vanished_log = chained_log\<lparr>disk := (\<lambda>_. Absent)\<rparr>"

definition newest_disk_file :: disk_file where
  "newest_disk_file =
     \<lparr>d_ino = 13, d_dev = 1, d_mtime = 0, d_file_seq = 5, d_prev_file_seq = 4,
      d_prev_file_offset = 80, d_create_stamp = 0, d_bytes = [6]\<rparr>"

definition archive_disk_file :: disk_file where
  "archive_disk_file =
     \<lparr>d_ino = 12, d_dev = 1, d_mtime = 0, d_file_seq = 4, d_prev_file_seq = 3,
      d_prev_file_offset = 90, d_create_stamp = 0, d_bytes = [5]\<rparr>"

definition lagging_log :: mail_transaction_log where
  "lagging_log =
     chained_log
       \<lparr>disk := (\<lambda>p. if p = ''dovecot.index.log'' then Node newest_disk_file
                      else if p = ''dovecot.index.log.2'' then Node archive_disk_file
                      else Absent)\<rparr>"

definition lagging_log_refreshed :: mail_transaction_log where
  "lagging_log_refreshed =
     lagging_log
       \<lparr>heap := [None, Some older_file,
                 Some ((load_disk_file newest_disk_file 3 24 (blank_file ''dovecot.index.log''))
                         \<lparr>refcount := 1\<rparr>)],
        head := Some 2, files := [1],
        fd_table := (fd_table lagging_log)(3 := Some newest_disk_file),
        next_fd := 4\<rparr>"

definition lagging_log_found :: mail_transaction_log where
  "lagging_log_found =
     lagging_log_refreshed
       \<lparr>heap := heap lagging_log_refreshed @
                  [Some (load_disk_file archive_disk_file 4 24 (blank_file ''dovecot.index.log.2''))],
        fd_table := (fd_table lagging_log_refreshed)(4 := Some archive_disk_file),
        next_fd := 5\<rparr>"

definition wrapped_file :: mail_transaction_log_file where
  "wrapped_file = example_file\<lparr>hdr_file_seq := - 1\<rparr>"

definition wrapped_log :: mail_transaction_log where
  "wrapped_log =
     example_log
       \<lparr>heap := [Some wrapped_file],
        disk := (\<lambda>p. if p = ''dovecot.index.log'' then Node (example_disk_file\<lparr>d_file_seq := - 1\<rparr>)
                      else if p = ''dovecot.index.log.2'' then Io_error
                      else Absent)\<rparr>"

definition wrapped_log_searched :: mail_transaction_log where
  "wrapped_log_searched =
     wrapped_log\<lparr>heap := [Some wrapped_file, Some (blank_file ''dovecot.index.log.2'')]\<rparr>"

section \<open>Properties\<close>

text \<open>The definitions a concrete run unfolds.\<close>

lemmas eval_defs =
  mail_transaction_log_alloc_def mail_transaction_log_file_alloc_def
  mail_transaction_log_file_alloc_in_memory_def mail_transaction_log_file_free_def
  mail_transaction_log_file_open_def mail_transaction_log_file_create_def
  mail_transaction_log_file_lock_def mail_transaction_log_file_unlock_def
  mail_transaction_log_file_map_def mail_transaction_log_file_read_def
  mail_transaction_log_set_head_def mail_transaction_logs_clean_def
  unref_and_clean_def rotate_new_file_def mail_transaction_log_rotate_def
  mail_transaction_log_refresh_def lock_head_body_def
  MAIL_TRANSACTION_LOG_FILE_IN_MEMORY_def MAIL_TRANSACTION_LOG_SUFFIX_def
  deref_def store_def blank_file_def load_disk_file_def Let_def

subsection \<open>The store\<close>

lemma deref_store:
  "deref (store p f L) q = (if q = p \<and> p < length (heap L) then Some f else deref L q)"
  by (simp add: deref_def store_def)


lemma deref_Some_less: "deref L p = Some f \<Longrightarrow> p < length (heap L)"
  by (simp add: deref_def split: if_splits)

lemma store_fields:
  "length (heap (store p f L)) = length (heap L)" "head (store p f L) = head L"
  "files (store p f L) = files L" "open_file (store p f L) = open_file L"
  "index_in_memory (store p f L) = index_in_memory L"
  "index_filepath (store p f L) = index_filepath L"
  "log_locked (store p f L) = log_locked L" "disk (store p f L) = disk L"
  "fd_table (store p f L) = fd_table L" "lock_busy (store p f L) = lock_busy L"
  "create_result (store p f L) = create_result L" "next_fd (store p f L) = next_fd L"
  "hdr_size (store p f L) = hdr_size L"
  by (simp_all add: store_def)

lemma deref_fd_table_update: "deref (L\<lparr>fd_table := t\<rparr>) p = deref L p"
  by (simp add: deref_def)

lemma store_store: "store p f (store p g L) = store p f L"
  by (simp add: store_def)

subsection \<open>The mailbox sync position\<close>



subsection \<open>The configuration filter\<close>

text \<open>
  C10. Whenever \<^verbatim>\<open>sup->local_name\<close> is not null and \<^verbatim>\<open>filter->local_name\<close> is
  null, \<^verbatim>\<open>config_filter_is_superset\<close> returns false: either one of the two bit
  comparisons above the test has already returned false, or the test itself does.
\<close>

theorem config_filter_is_superset_local_name:
  "local_name sup' \<noteq> None \<Longrightarrow> local_name filter' = None \<Longrightarrow>
   snd (config_filter_is_superset sup' filter') = False"
  by (simp add: config_filter_is_superset_def)

theorem config_filter_is_superset_local_name_witness:
  "local_name \<lparr>service = None, local_name = Some ''mail.example.org'', local_bits = 0,
               remote_bits = 0, local_net = [], remote_net = []\<rparr> \<noteq> None
   \<and> local_name \<lparr>service = Some ''imap'', local_name = None, local_bits = 24,
               remote_bits = 8, local_net = [10, 0, 0, 0], remote_net = [192, 0, 0, 0]\<rparr> = None
   \<and> snd (config_filter_is_superset
        \<lparr>service = None, local_name = Some ''mail.example.org'', local_bits = 0,
               remote_bits = 0, local_net = [], remote_net = []\<rparr>
        \<lparr>service = Some ''imap'', local_name = None, local_bits = 24,
               remote_bits = 8, local_net = [10, 0, 0, 0], remote_net = [192, 0, 0, 0]\<rparr>) = False"
  using config_filter_is_superset_local_name
    [of "\<lparr>service = None, local_name = Some ''mail.example.org'', local_bits = 0,
               remote_bits = 0, local_net = [], remote_net = []\<rparr>"
        "\<lparr>service = Some ''imap'', local_name = None, local_bits = 24,
               remote_bits = 8, local_net = [10, 0, 0, 0], remote_net = [192, 0, 0, 0]\<rparr>"]
  by simp

subsection \<open>Opening and creating\<close>

lemma free_open_file_None: "open_file L = None \<Longrightarrow> free_open_file L = Inr L"
  by (simp add: free_open_file_def)

lemma free_open_file_frame:
  assumes "free_open_file L = Inr L1"
  shows "open_file L1 = None" and "head L1 = head L" and "length (heap L1) = length (heap L)"
    and "index_in_memory L1 = index_in_memory L" and "index_filepath L1 = index_filepath L"
    and "disk L1 = disk L" and "fd_table L1 = fd_table L" and "next_fd L1 = next_fd L"
    and "hdr_size L1 = hdr_size L"
  using assms
  by (auto simp: free_open_file_def mail_transaction_log_file_free_def
      split: option.splits sum.splits)

text \<open>
  C7, as the code has it. \<^verbatim>\<open>mail_transaction_log_open\<close> first frees a LogFile left in
  \<open>open_file\<close> (\<open>free_open_file\<close>), whatever the index is. Then:
  \<^item> for an in-memory index it returns 0 without any file-system access and without
    touching \<open>head\<close>; \<open>open_file\<close> is null afterwards;
  \<^item> when the canonical path does not exist it returns 0 and keeps the newly
    allocated LogFile in \<open>open_file\<close>;
  \<^item> when the file at the canonical path opens, it returns 1 and the new LogFile is
    the head, with its reference count raised from 0 to 1 (the old \<open>head\<close> must not
    be a dangling pointer to the cell the allocation returns, or the assertion of
    \<^verbatim>\<open>mail_transaction_log_set_head\<close> fails).
\<close>

theorem open_cases:
  assumes "free_open_file L = Inr L1"
  shows "(index_in_memory L \<longrightarrow>
            mail_transaction_log_open L = Inr (0, L1) \<and> head L1 = head L \<and> open_file L1 = None)
       \<and> (\<not> index_in_memory L \<and> disk L (index_filepath L @ ''.log'') = Absent \<longrightarrow>
            mail_transaction_log_open L =
              Inr (0, L1\<lparr>heap := heap L1 @ [Some (blank_file (index_filepath L @ ''.log''))],
                         open_file := Some (length (heap L))\<rparr>))
       \<and> (\<not> index_in_memory L \<and> disk L (index_filepath L @ ''.log'') = Node d
            \<and> head L \<noteq> Some (length (heap L)) \<longrightarrow>
            (\<exists>L'. mail_transaction_log_open L = Inr (1, L')
               \<and> head L' = Some (length (heap L)) \<and> open_file L' = None
               \<and> deref L' (length (heap L)) =
                   Some ((load_disk_file d (next_fd L) (hdr_size L)
                            (blank_file (index_filepath L @ ''.log'')))\<lparr>refcount := 1\<rparr>)))"
proof -
  note fr = free_open_file_frame [OF assms]
  have p1: "index_in_memory L \<longrightarrow>
      mail_transaction_log_open L = Inr (0, L1) \<and> head L1 = head L \<and> open_file L1 = None"
    using assms fr by (simp add: mail_transaction_log_open_def)
  have p2: "\<not> index_in_memory L \<and> disk L (index_filepath L @ ''.log'') = Absent \<longrightarrow>
      mail_transaction_log_open L =
        Inr (0, L1\<lparr>heap := heap L1 @ [Some (blank_file (index_filepath L @ ''.log''))],
                   open_file := Some (length (heap L))\<rparr>)"
    using assms fr(1,2,4-9) fr(3) [symmetric]
    by (simp add: mail_transaction_log_open_def mail_transaction_log_file_alloc_def
        mail_transaction_log_file_open_def deref_def blank_file_def
        MAIL_TRANSACTION_LOG_SUFFIX_def)
  have p3: "\<not> index_in_memory L \<and> disk L (index_filepath L @ ''.log'') = Node d
        \<and> head L \<noteq> Some (length (heap L)) \<longrightarrow>
      (\<exists>L'. mail_transaction_log_open L = Inr (1, L')
         \<and> head L' = Some (length (heap L)) \<and> open_file L' = None
         \<and> deref L' (length (heap L)) =
             Some ((load_disk_file d (next_fd L) (hdr_size L)
                      (blank_file (index_filepath L @ ''.log'')))\<lparr>refcount := 1\<rparr>))"
    using assms fr(1,2,4-9) fr(3) [symmetric]
    by (simp add: mail_transaction_log_open_def mail_transaction_log_file_alloc_def
        mail_transaction_log_file_open_def mail_transaction_log_set_head_def
        deref_def store_def blank_file_def load_disk_file_def
        MAIL_TRANSACTION_LOG_SUFFIX_def)
  show ?thesis
    by (intro conjI) (rule p1, rule p2, rule p3)
qed

theorem open_cases_witness:
  "free_open_file (mail_transaction_log_alloc True ''dovecot.index'') =
     Inr (mail_transaction_log_alloc True ''dovecot.index'')
   \<and> index_in_memory (mail_transaction_log_alloc True ''dovecot.index'')
   \<and> mail_transaction_log_open (mail_transaction_log_alloc True ''dovecot.index'') =
       Inr (0, mail_transaction_log_alloc True ''dovecot.index'')
   \<and> free_open_file (mail_transaction_log_alloc False ''dovecot.index'') =
       Inr (mail_transaction_log_alloc False ''dovecot.index'')
   \<and> \<not> index_in_memory (mail_transaction_log_alloc False ''dovecot.index'')
   \<and> disk (mail_transaction_log_alloc False ''dovecot.index'') ''dovecot.index.log'' = Absent
   \<and> mail_transaction_log_open (mail_transaction_log_alloc False ''dovecot.index'') =
       Inr (0, (mail_transaction_log_alloc False ''dovecot.index'')
                 \<lparr>heap := [Some (blank_file ''dovecot.index.log'')], open_file := Some 0\<rparr>)
   \<and> free_open_file unopened_log = Inr unopened_log
   \<and> \<not> index_in_memory unopened_log
   \<and> disk unopened_log ''dovecot.index.log'' = Node example_disk_file
   \<and> head unopened_log \<noteq> Some 0
   \<and> (\<exists>L'. mail_transaction_log_open unopened_log = Inr (1, L')
         \<and> head L' = Some 0 \<and> open_file L' = None
         \<and> map_option refcount (deref L' 0) = Some 1
         \<and> map_option hdr_file_seq (deref L' 0) = Some 2)"
proof -
  let ?M = "mail_transaction_log_alloc True ''dovecot.index''"
  let ?D = "mail_transaction_log_alloc False ''dovecot.index''"
  have m: "free_open_file ?M = Inr ?M" "index_in_memory ?M"
    by (simp_all add: free_open_file_def mail_transaction_log_alloc_def)
  have d: "free_open_file ?D = Inr ?D" "\<not> index_in_memory ?D"
    "disk ?D ''dovecot.index.log'' = Absent" "index_filepath ?D = ''dovecot.index''"
    "heap ?D = []"
    by (simp_all add: free_open_file_def mail_transaction_log_alloc_def)
  have u: "free_open_file unopened_log = Inr unopened_log" "\<not> index_in_memory unopened_log"
    "disk unopened_log ''dovecot.index.log'' = Node example_disk_file"
    "head unopened_log \<noteq> Some 0" "index_filepath unopened_log = ''dovecot.index''"
    "heap unopened_log = []"
    by (simp_all add: free_open_file_def unopened_log_def mail_transaction_log_alloc_def)
  have w1: "mail_transaction_log_open ?M = Inr (0, ?M)"
    using open_cases [OF m(1)] m(2) by blast
  have w2: "mail_transaction_log_open ?D =
      Inr (0, ?D\<lparr>heap := [Some (blank_file ''dovecot.index.log'')], open_file := Some 0\<rparr>)"
    using open_cases [OF d(1)] d(2,3) by (simp add: d(4,5))
  have w3: "\<exists>L'. mail_transaction_log_open unopened_log = Inr (1, L')
         \<and> head L' = Some 0 \<and> open_file L' = None
         \<and> map_option refcount (deref L' 0) = Some 1
         \<and> map_option hdr_file_seq (deref L' 0) = Some 2"
    using open_cases [OF u(1), of example_disk_file] u(2,3,4)
    by (auto simp: u(5,6) load_disk_file_def example_disk_file_def)
  show ?thesis
    using m d(1,2,3) u(1,2,3,4) w1 w2 w3 by blast
qed

text \<open>
  C7 as stated fails for an in-memory index whose log still holds an \<open>open_file\<close>:
  the call frees it and clears the field before it returns 0.
\<close>

theorem open_in_memory_frees_open_file:
  "index_in_memory stale_open_log \<and> open_file stale_open_log = Some 0
   \<and> mail_transaction_log_open stale_open_log =
       Inr (0, stale_open_log\<lparr>heap := [None], open_file := None\<rparr>)"
  by (simp add: mail_transaction_log_open_def free_open_file_def stale_open_log_def
      mail_transaction_log_alloc_def mail_transaction_log_file_free_def deref_def)

text \<open>
  C9. On a disk-backed index whose log-file creation fails,
  \<^verbatim>\<open>mail_transaction_log_create\<close> frees the file, which sets the pointer to null, and
  goes on to \<^verbatim>\<open>mail_transaction_log_set_head(log, NULL)\<close>: with no head yet the
  assertion \<^verbatim>\<open>log->head != file\<close> fails, with a head the null pointer is
  dereferenced. Neither run returns 1, and none returns an error code.
\<close>

theorem create_failure_crashes:
  "mail_transaction_log_create (mail_transaction_log_alloc False ''dovecot.index'') = Inl Assert_failed
   \<and> mail_transaction_log_create example_log = Inl Null_deref"
  by (simp add: mail_transaction_log_create_def mail_transaction_log_alloc_def
      mail_transaction_log_file_alloc_def remember_open_file_def
      mail_transaction_log_file_create_def mail_transaction_log_file_free_def
      mail_transaction_log_set_head_def deref_def store_def blank_file_def
      example_log_def example_file_def MAIL_TRANSACTION_LOG_SUFFIX_def)

subsection \<open>Moving to memory\<close>

text \<open>
  C6, as the code has it. \<^verbatim>\<open>mail_transaction_log_move_to_memory\<close> works on the head
  only, and the theorem gives the state it returns in every case. With no head, or a
  head that is in memory already, it returns 0 and changes nothing. Otherwise the
  head's buffer and mapping are released first. When reading the head's file fails it
  returns -1, and when the read returns no bytes (the file is empty) it returns -1 as
  well, with an empty buffer: in both cases the descriptor stays open and the file is
  still on disk. When the read returns bytes the call returns 0, the head keeps its
  address and \<open>file_seq\<close>, its buffer holds the whole file from offset 0, so every byte
  read from it is the byte of the file on disk, its mapping is gone, its descriptor is
  closed and \<open>fd\<close> is -1. The head's cell is the only cell of the store that is
  written, and the descriptor table changes at the head's descriptor only: \<open>head\<close>,
  the \<open>files\<close> chain and every other file are left as they were.
\<close>

theorem move_to_memory_head_only:
  "(head L = None \<longrightarrow> mail_transaction_log_move_to_memory L = Inr (0, L))
   \<and> (head L = Some h \<and> deref L h = Some f \<and> fd f = - 1 \<longrightarrow>
        mail_transaction_log_move_to_memory L = Inr (0, L))
   \<and> (head L = Some h \<and> deref L h = Some f \<and> fd f \<noteq> - 1 \<and> fd_table L (fd f) = None \<longrightarrow>
        mail_transaction_log_move_to_memory L =
          Inr (- 1, store h (f\<lparr>buffer_offset := 0, buffer := None, mmap_base := None\<rparr>) L))
   \<and> (head L = Some h \<and> deref L h = Some f \<and> fd f \<noteq> - 1
        \<and> fd_table L (fd f) = Some d \<and> d_bytes d = [] \<longrightarrow>
        mail_transaction_log_move_to_memory L =
          Inr (- 1, store h (f\<lparr>mmap_base := None, buffer := Some [], buffer_offset := 0\<rparr>) L))
   \<and> (head L = Some h \<and> deref L h = Some f \<and> fd f \<noteq> - 1
        \<and> fd_table L (fd f) = Some d \<and> d_bytes d \<noteq> [] \<longrightarrow>
        mail_transaction_log_move_to_memory L =
          Inr (0, (store h (f\<lparr>mmap_base := None, buffer := Some (d_bytes d), buffer_offset := 0, fd := - 1\<rparr>) L)
                    \<lparr>fd_table := (fd_table L)(fd f := None)\<rparr>)
        \<and> hdr_file_seq (f\<lparr>mmap_base := None, buffer := Some (d_bytes d), buffer_offset := 0, fd := - 1\<rparr>) = hdr_file_seq f
        \<and> (\<forall>i. file_byte (f\<lparr>mmap_base := None, buffer := Some (d_bytes d), buffer_offset := 0, fd := - 1\<rparr>) i =
                 (if i < length (d_bytes d) then Some (d_bytes d ! i) else None)))
   \<and> (\<forall>g t. head (store h g L) = head L \<and> files (store h g L) = files L
          \<and> head ((store h g L)\<lparr>fd_table := t\<rparr>) = head L
          \<and> files ((store h g L)\<lparr>fd_table := t\<rparr>) = files L
          \<and> (\<forall>q. q \<noteq> h \<longrightarrow> deref (store h g L) q = deref L q
                    \<and> deref ((store h g L)\<lparr>fd_table := t\<rparr>) q = deref L q))"
proof -
  note mm = mail_transaction_log_move_to_memory_def MAIL_TRANSACTION_LOG_FILE_IN_MEMORY_def
    mail_transaction_log_file_read_def
  have p1: "head L = None \<longrightarrow> mail_transaction_log_move_to_memory L = Inr (0, L)"
    by (simp add: mm)
  have p2: "head L = Some h \<and> deref L h = Some f \<and> fd f = - 1 \<longrightarrow>
      mail_transaction_log_move_to_memory L = Inr (0, L)"
    by (simp add: mm)
  have p3: "head L = Some h \<and> deref L h = Some f \<and> fd f \<noteq> - 1 \<and> fd_table L (fd f) = None \<longrightarrow>
      mail_transaction_log_move_to_memory L =
        Inr (- 1, store h (f\<lparr>buffer_offset := 0, buffer := None, mmap_base := None\<rparr>) L)"
  proof
    assume a: "head L = Some h \<and> deref L h = Some f \<and> fd f \<noteq> - 1 \<and> fd_table L (fd f) = None"
    then have "h < length (heap L)" by (simp add: deref_Some_less)
    with a show "mail_transaction_log_move_to_memory L =
        Inr (- 1, store h (f\<lparr>buffer_offset := 0, buffer := None, mmap_base := None\<rparr>) L)"
      by (simp add: mm deref_store store_fields)
  qed
  have p4: "head L = Some h \<and> deref L h = Some f \<and> fd f \<noteq> - 1
        \<and> fd_table L (fd f) = Some d \<and> d_bytes d = [] \<longrightarrow>
      mail_transaction_log_move_to_memory L =
        Inr (- 1, store h (f\<lparr>mmap_base := None, buffer := Some [], buffer_offset := 0\<rparr>) L)"
  proof
    assume a: "head L = Some h \<and> deref L h = Some f \<and> fd f \<noteq> - 1
        \<and> fd_table L (fd f) = Some d \<and> d_bytes d = []"
    then have "h < length (heap L)" by (simp add: deref_Some_less)
    with a show "mail_transaction_log_move_to_memory L =
        Inr (- 1, store h (f\<lparr>mmap_base := None, buffer := Some [], buffer_offset := 0\<rparr>) L)"
      by (simp add: mm deref_store store_fields store_store)
  qed
  have p5: "head L = Some h \<and> deref L h = Some f \<and> fd f \<noteq> - 1
        \<and> fd_table L (fd f) = Some d \<and> d_bytes d \<noteq> [] \<longrightarrow>
      mail_transaction_log_move_to_memory L =
        Inr (0, (store h (f\<lparr>mmap_base := None, buffer := Some (d_bytes d), buffer_offset := 0, fd := - 1\<rparr>) L)
                  \<lparr>fd_table := (fd_table L)(fd f := None)\<rparr>)
      \<and> hdr_file_seq (f\<lparr>mmap_base := None, buffer := Some (d_bytes d), buffer_offset := 0, fd := - 1\<rparr>) = hdr_file_seq f
      \<and> (\<forall>i. file_byte (f\<lparr>mmap_base := None, buffer := Some (d_bytes d), buffer_offset := 0, fd := - 1\<rparr>) i =
               (if i < length (d_bytes d) then Some (d_bytes d ! i) else None))"
  proof
    assume a: "head L = Some h \<and> deref L h = Some f \<and> fd f \<noteq> - 1
        \<and> fd_table L (fd f) = Some d \<and> d_bytes d \<noteq> []"
    then have lt: "h < length (heap L)" by (simp add: deref_Some_less)
    have bytes: "\<forall>i. file_byte (f\<lparr>mmap_base := None, buffer := Some (d_bytes d), buffer_offset := 0, fd := - 1\<rparr>) i =
                    (if i < length (d_bytes d) then Some (d_bytes d ! i) else None)"
      by (simp add: file_byte_def)
    have run: "mail_transaction_log_move_to_memory L =
        Inr (0, (store h (f\<lparr>mmap_base := None, buffer := Some (d_bytes d), buffer_offset := 0, fd := - 1\<rparr>) L)
                  \<lparr>fd_table := (fd_table L)(fd f := None)\<rparr>)"
      using a lt by (simp add: mm deref_store store_fields store_store)
    show "mail_transaction_log_move_to_memory L =
        Inr (0, (store h (f\<lparr>mmap_base := None, buffer := Some (d_bytes d), buffer_offset := 0, fd := - 1\<rparr>) L)
                  \<lparr>fd_table := (fd_table L)(fd f := None)\<rparr>)
      \<and> hdr_file_seq (f\<lparr>mmap_base := None, buffer := Some (d_bytes d), buffer_offset := 0, fd := - 1\<rparr>) = hdr_file_seq f
      \<and> (\<forall>i. file_byte (f\<lparr>mmap_base := None, buffer := Some (d_bytes d), buffer_offset := 0, fd := - 1\<rparr>) i =
               (if i < length (d_bytes d) then Some (d_bytes d ! i) else None))"
      using run bytes by simp
  qed
  have p6: "\<forall>g t. head (store h g L) = head L \<and> files (store h g L) = files L
          \<and> head ((store h g L)\<lparr>fd_table := t\<rparr>) = head L
          \<and> files ((store h g L)\<lparr>fd_table := t\<rparr>) = files L
          \<and> (\<forall>q. q \<noteq> h \<longrightarrow> deref (store h g L) q = deref L q
                    \<and> deref ((store h g L)\<lparr>fd_table := t\<rparr>) q = deref L q)"
    by (simp add: store_fields deref_store deref_fd_table_update)
  show ?thesis
    by (intro conjI) (rule p1, rule p2, rule p3, rule p4, rule p5, rule p6)
qed

theorem move_to_memory_head_only_witness:
  "head example_log = Some 0 \<and> deref example_log 0 = Some example_file
   \<and> fd example_file \<noteq> - 1 \<and> fd_table example_log (fd example_file) = Some example_disk_file
   \<and> d_bytes example_disk_file \<noteq> []
   \<and> mail_transaction_log_move_to_memory example_log =
       Inr (0, (store 0 (example_file\<lparr>mmap_base := None, buffer := Some [1, 2, 3, 4], buffer_offset := 0, fd := - 1\<rparr>) example_log)
                 \<lparr>fd_table := (fd_table example_log)(5 := None)\<rparr>)
   \<and> file_byte (example_file\<lparr>mmap_base := None, buffer := Some [1, 2, 3, 4], buffer_offset := 0, fd := - 1\<rparr>) 2 = Some 3
   \<and> head unreadable_log = Some 0 \<and> deref unreadable_log 0 = Some example_file
   \<and> fd_table unreadable_log (fd example_file) = None
   \<and> mail_transaction_log_move_to_memory unreadable_log =
       Inr (- 1, store 0 (example_file\<lparr>buffer_offset := 0, buffer := None, mmap_base := None\<rparr>)
                  unreadable_log)
   \<and> head empty_file_log = Some 0 \<and> deref empty_file_log 0 = Some example_file
   \<and> fd_table empty_file_log (fd example_file) = Some (example_disk_file\<lparr>d_bytes := []\<rparr>)
   \<and> d_bytes (example_disk_file\<lparr>d_bytes := []\<rparr>) = []
   \<and> mail_transaction_log_move_to_memory empty_file_log =
       Inr (- 1, store 0 (example_file\<lparr>mmap_base := None, buffer := Some [], buffer_offset := 0\<rparr>)
                  empty_file_log)"
proof -
  have v: "fd example_file = 5" "fd example_file \<noteq> - 1"
    "d_bytes example_disk_file = [1, 2, 3, 4]" "d_bytes example_disk_file \<noteq> []"
    "d_bytes (example_disk_file\<lparr>d_bytes := []\<rparr>) = []"
    by (simp_all add: example_file_def example_disk_file_def)
  have e: "head example_log = Some 0" "deref example_log 0 = Some example_file"
    "fd_table example_log (fd example_file) = Some example_disk_file"
    by (simp_all add: example_log_def deref_def v(1))
  have u: "head unreadable_log = Some 0" "deref unreadable_log 0 = Some example_file"
    "fd_table unreadable_log (fd example_file) = None"
    by (simp_all add: unreadable_log_def example_log_def deref_def)
  have m: "head empty_file_log = Some 0" "deref empty_file_log 0 = Some example_file"
    "fd_table empty_file_log (fd example_file) = Some (example_disk_file\<lparr>d_bytes := []\<rparr>)"
    by (simp_all add: empty_file_log_def example_log_def deref_def v(1))
  note T1 = move_to_memory_head_only [of example_log 0 example_file example_disk_file]
  note T2 = move_to_memory_head_only [of unreadable_log 0 example_file]
  note T3 = move_to_memory_head_only
    [of empty_file_log 0 example_file "example_disk_file\<lparr>d_bytes := []\<rparr>"]
  have w1: "mail_transaction_log_move_to_memory example_log =
       Inr (0, (store 0 (example_file\<lparr>mmap_base := None, buffer := Some [1, 2, 3, 4], buffer_offset := 0, fd := - 1\<rparr>) example_log)
                 \<lparr>fd_table := (fd_table example_log)(5 := None)\<rparr>)
     \<and> file_byte (example_file\<lparr>mmap_base := None, buffer := Some [1, 2, 3, 4], buffer_offset := 0, fd := - 1\<rparr>) 2 = Some 3"
    using T1 e v(2,4) by (simp add: v(1,3))
  have w2: "mail_transaction_log_move_to_memory unreadable_log =
       Inr (- 1, store 0 (example_file\<lparr>buffer_offset := 0, buffer := None, mmap_base := None\<rparr>)
                  unreadable_log)"
    using T2 u v(2) by blast
  have w3: "mail_transaction_log_move_to_memory empty_file_log =
       Inr (- 1, store 0 (example_file\<lparr>mmap_base := None, buffer := Some [], buffer_offset := 0\<rparr>)
                  empty_file_log)"
    using T3 m v(2,5) by blast
  show ?thesis
    by (intro conjI)
      (rule e(1), rule e(2), rule v(2), rule e(3), rule v(4), rule w1 [THEN conjunct1],
       rule w1 [THEN conjunct2], rule u(1), rule u(2), rule u(3), rule w2,
       rule m(1), rule m(2), rule m(3), rule v(5), rule w3)
qed

text \<open>
  C6 as stated fails for a log that retains an older on-disk file in \<open>files\<close>: after
  the call that file still has its descriptor.
\<close>

theorem move_to_memory_leaves_chain_on_disk:
  "mail_transaction_log_move_to_memory history_log = Inr (0, history_log_moved)
   \<and> files history_log_moved = [1]
   \<and> deref history_log_moved 1 = Some older_file \<and> fd older_file = 4"
  by (simp add: mail_transaction_log_move_to_memory_def history_log_def history_log_moved_def
      example_log_def mail_transaction_log_alloc_def mail_transaction_log_file_read_def
      deref_def store_def example_file_def older_file_def blank_file_def example_disk_file_def
      MAIL_TRANSACTION_LOG_FILE_IN_MEMORY_def)

subsection \<open>The purge sweep and rotation\<close>

lemma file_free_Inr:
  "mail_transaction_log_file_free p L = Inr L' \<Longrightarrow>
   L' = L\<lparr>heap := (heap L)[p := None], files := remove1 p (files L)\<rparr> \<and> p < length (heap L)"
  by (auto simp: mail_transaction_log_file_free_def deref_def split: option.splits if_splits)

lemma deref_file_free:
  "mail_transaction_log_file_free p L = Inr L' \<Longrightarrow>
   deref L' q = (if q = p then None else deref L q)"
  by (auto dest!: file_free_Inr simp: deref_def)


lemma logs_clean_loop_Cons:
  assumes "logs_clean_loop (q # ps) L = Inr L'"
  obtains g where "deref L q = Some g" and "0 < refcount g" and "logs_clean_loop ps L = Inr L'"
  | g L1 where "deref L q = Some g" and "refcount g = 0"
      and "mail_transaction_log_file_free q L = Inr L1" and "logs_clean_loop ps L1 = Inr L'"
  using assms by (auto split: option.splits sum.splits if_splits)



lemma logs_clean_loop_referenced:
  "logs_clean_loop ps L = Inr L' \<Longrightarrow> deref L p = Some f \<Longrightarrow> refcount f \<noteq> 0 \<Longrightarrow>
   deref L' p = Some f"
proof (induction ps arbitrary: L)
  case Nil
  then show ?case by simp
next
  case (Cons q ps)
  from Cons.prems(1) show ?case
  proof (cases rule: logs_clean_loop_Cons)
    case (1 g)
    then show ?thesis using Cons.IH Cons.prems(2,3) by blast
  next
    case (2 g L1)
    from 2(1,2) Cons.prems(2,3) have "p \<noteq> q" by auto
    then have "deref L1 p = Some f"
      using deref_file_free [OF 2(3), of p] Cons.prems(2) by simp
    then show ?thesis
      using Cons.IH [OF 2(4)] Cons.prems(3) by blast
  qed
qed












subsection \<open>Refreshing and locking the head\<close>


lemma refresh_noop:
  assumes "head L = Some h" and "deref L h = Some hf"
    and "fd hf = - 1 \<or> (disk L (index_filepath L @ ''.log'') = Node st
           \<and> st_ino hf = d_ino st \<and> st_dev hf = d_dev st)"
  shows "mail_transaction_log_refresh L = Inr (0, L)"
  using assms
  by (auto simp: mail_transaction_log_refresh_def MAIL_TRANSACTION_LOG_FILE_IN_MEMORY_def
      MAIL_TRANSACTION_LOG_SUFFIX_def)










subsection \<open>The sync lock\<close>



lemma example_log_lock_pass:
  "lock_head_body example_log =
     Inr (Leave 0 (store 0 (example_file\<lparr>locked := True\<rparr>) example_log))"
  by (simp add: example_log_def example_file_def example_disk_file_def eval_defs)

lemma example_log_lock_head:
  "mail_transaction_log_lock_head example_log =
     Some (Inr (0, store 0 (example_file\<lparr>locked := True\<rparr>) example_log))"
  by (subst mail_transaction_log_lock_head.simps) (simp add: example_log_lock_pass)











subsection \<open>Finding a file\<close>

lemma word_less_succ: "x \<noteq> - 1 \<Longrightarrow> x < x + (1 :: 32 word)"
  by (metis inc_less_eq_triv_imp linorder_less_linear word_le_less_eq)

lemma find_in_chain_find:
  "\<forall>q\<in>set ps. deref L q \<noteq> None \<Longrightarrow>
   find_in_chain L ps file_seq =
     Inr (List.find (\<lambda>q. map_option hdr_file_seq (deref L q) = Some file_seq) ps)"
  by (induction ps) auto

lemma find_file_lookup_order:
  assumes "\<forall>q\<in>set (files L). deref L q \<noteq> None"
  shows "find_file_lookup L file_seq = Inr (chain_then_archive L file_seq)"
proof (cases "List.find (\<lambda>q. map_option hdr_file_seq (deref L q) = Some file_seq) (files L)")
  case (Some p)
  then show ?thesis
    by (simp add: find_file_lookup_def chain_then_archive_def find_in_chain_find [OF assms])
next
  case None
  show ?thesis
  proof (cases "index_in_memory L")
    case True
    with None show ?thesis
      by (simp add: find_file_lookup_def chain_then_archive_def find_in_chain_find [OF assms])
  next
    case False
    with None show ?thesis
      by (cases "disk L (index_filepath L @ ''.log.2'')")
        (simp_all add: find_file_lookup_def chain_then_archive_def find_in_chain_find [OF assms]
          mail_transaction_log_file_alloc_def mail_transaction_log_file_open_def
          deref_def store_def load_disk_file_def blank_file_def MAIL_TRANSACTION_LOG_SUFFIX_def)
  qed
qed

lemmas find_example_defs =
  chained_log_def vanished_log_def lagging_log_def lagging_log_refreshed_def
  lagging_log_found_def wrapped_log_def wrapped_log_searched_def wrapped_file_def
  newest_disk_file_def archive_disk_file_def history_log_def example_log_def
  example_file_def older_file_def example_disk_file_def older_disk_file_def

lemma lagging_log_refresh:
  "mail_transaction_log_refresh lagging_log = Inr (0, lagging_log_refreshed)"
  by (simp add: find_example_defs eval_defs)

lemma lagging_log_search:
  "chain_then_archive lagging_log_refreshed 4 = (1, Some 3, lagging_log_found)"
  by (simp add: chain_then_archive_def find_example_defs eval_defs)

lemma chained_log_search:
  "chain_then_archive chained_log 1 = (1, Some 1, chained_log)"
  by (simp add: chain_then_archive_def find_example_defs eval_defs)

lemma wrapped_log_search:
  "chain_then_archive wrapped_log 0 = (- 1, None, wrapped_log_searched)"
  by (simp add: chain_then_archive_def find_example_defs eval_defs)

lemma vanished_log_refresh:
  "mail_transaction_log_refresh vanished_log = Inr (- 1, vanished_log)"
  by (simp add: find_example_defs eval_defs)

text \<open>
  C5, as the code has it. Sequences are unsigned 32-bit numbers. With a head whose
  sequence is \<open>hdr_file_seq hf\<close>, \<^verbatim>\<open>mail_transaction_log_find_file\<close> works in this
  order.
  \<^item> A \<open>file_seq\<close> beyond the head's is answered first. Under a locked head the
    answer is NotFound (0) at once, with no refresh and no search. Otherwise the refresh
    runs; its failure is the answer Error (-1); a \<open>file_seq\<close> that is still beyond
    the sequence of the head the refresh left is NotFound (0), with no search; and
    otherwise the search runs on the refreshed log.
  \<^item> A \<open>file_seq\<close> not beyond the head's needs no refresh: the search runs on the log
    as it is.
  \<^item> The search, over a chain of allocated files, is \<open>chain_then_archive\<close>: the first
    file of the \<open>files\<close> chain with that sequence is Found (1) and nothing is opened;
    with no such file an in-memory index answers NotFound; otherwise a LogFile is
    allocated for the \<^verbatim>\<open>.log.2\<close> path and opened, and the answer is NotFound for a
    missing file and for a file of another sequence, Error for a failing open, Found for
    a file of that sequence.
  \<^item> When no rotation has occurred (the head is locked or in memory, or the canonical
    path still names the head's file), the answer for \<open>head.file_seq + 1\<close> is NotFound,
    with the log unchanged, for every head sequence below the largest 32-bit value. At
    the largest value the sum wraps around to 0, which is not beyond the head: the
    answer is that of the search for 0.
\<close>

theorem find_file_order:
  assumes "head L = Some h" and "deref L h = Some hf"
  shows "(hdr_file_seq hf < file_seq \<and> locked hf \<longrightarrow>
            mail_transaction_log_find_file L file_seq = Inr (0, None, L))
    \<and> (hdr_file_seq hf < file_seq \<and> \<not> locked hf
          \<and> mail_transaction_log_refresh L = Inr (r, L1) \<and> r < 0 \<longrightarrow>
            mail_transaction_log_find_file L file_seq = Inr (- 1, None, L1))
    \<and> (hdr_file_seq hf < file_seq \<and> \<not> locked hf
          \<and> mail_transaction_log_refresh L = Inr (r, L1) \<and> \<not> r < 0
          \<and> head L1 = Some h1 \<and> deref L1 h1 = Some hf1 \<and> hdr_file_seq hf1 < file_seq \<longrightarrow>
            mail_transaction_log_find_file L file_seq = Inr (0, None, L1))
    \<and> (hdr_file_seq hf < file_seq \<and> \<not> locked hf
          \<and> mail_transaction_log_refresh L = Inr (r, L1) \<and> \<not> r < 0
          \<and> head L1 = Some h1 \<and> deref L1 h1 = Some hf1 \<and> \<not> hdr_file_seq hf1 < file_seq
          \<and> (\<forall>q\<in>set (files L1). deref L1 q \<noteq> None) \<longrightarrow>
            mail_transaction_log_find_file L file_seq = Inr (chain_then_archive L1 file_seq))
    \<and> (\<not> hdr_file_seq hf < file_seq \<and> (\<forall>q\<in>set (files L). deref L q \<noteq> None) \<longrightarrow>
            mail_transaction_log_find_file L file_seq = Inr (chain_then_archive L file_seq))
    \<and> (hdr_file_seq hf \<noteq> - 1
          \<and> (locked hf \<or> fd hf = - 1 \<or> (disk L (index_filepath L @ ''.log'') = Node st
                \<and> st_ino hf = d_ino st \<and> st_dev hf = d_dev st)) \<longrightarrow>
            mail_transaction_log_find_file L (hdr_file_seq hf + 1) = Inr (0, None, L))
    \<and> (hdr_file_seq hf = - 1 \<and> (\<forall>q\<in>set (files L). deref L q \<noteq> None) \<longrightarrow>
            mail_transaction_log_find_file L (hdr_file_seq hf + 1) =
              Inr (chain_then_archive L 0))"
proof -
  note ff = mail_transaction_log_find_file_def
  have p1: "hdr_file_seq hf < file_seq \<and> locked hf \<longrightarrow>
      mail_transaction_log_find_file L file_seq = Inr (0, None, L)"
    using assms by (simp add: ff)
  have p2: "hdr_file_seq hf < file_seq \<and> \<not> locked hf
        \<and> mail_transaction_log_refresh L = Inr (r, L1) \<and> r < 0 \<longrightarrow>
      mail_transaction_log_find_file L file_seq = Inr (- 1, None, L1)"
    using assms by (simp add: ff)
  have p3: "hdr_file_seq hf < file_seq \<and> \<not> locked hf
        \<and> mail_transaction_log_refresh L = Inr (r, L1) \<and> \<not> r < 0
        \<and> head L1 = Some h1 \<and> deref L1 h1 = Some hf1 \<and> hdr_file_seq hf1 < file_seq \<longrightarrow>
      mail_transaction_log_find_file L file_seq = Inr (0, None, L1)"
    using assms by (simp add: ff)
  have p4: "hdr_file_seq hf < file_seq \<and> \<not> locked hf
        \<and> mail_transaction_log_refresh L = Inr (r, L1) \<and> \<not> r < 0
        \<and> head L1 = Some h1 \<and> deref L1 h1 = Some hf1 \<and> \<not> hdr_file_seq hf1 < file_seq
        \<and> (\<forall>q\<in>set (files L1). deref L1 q \<noteq> None) \<longrightarrow>
      mail_transaction_log_find_file L file_seq = Inr (chain_then_archive L1 file_seq)"
    using assms by (simp add: ff find_file_lookup_order)
  have p5: "\<not> hdr_file_seq hf < file_seq \<and> (\<forall>q\<in>set (files L). deref L q \<noteq> None) \<longrightarrow>
      mail_transaction_log_find_file L file_seq = Inr (chain_then_archive L file_seq)"
    using assms by (simp add: ff find_file_lookup_order)
  have noop: "mail_transaction_log_refresh L = Inr (0, L)"
    if "fd hf = - 1 \<or> (disk L (index_filepath L @ ''.log'') = Node st
          \<and> st_ino hf = d_ino st \<and> st_dev hf = d_dev st)"
    using refresh_noop [OF assms that] .
  have p6: "hdr_file_seq hf \<noteq> - 1
        \<and> (locked hf \<or> fd hf = - 1 \<or> (disk L (index_filepath L @ ''.log'') = Node st
              \<and> st_ino hf = d_ino st \<and> st_dev hf = d_dev st)) \<longrightarrow>
      mail_transaction_log_find_file L (hdr_file_seq hf + 1) = Inr (0, None, L)"
  proof
    assume a: "hdr_file_seq hf \<noteq> - 1
        \<and> (locked hf \<or> fd hf = - 1 \<or> (disk L (index_filepath L @ ''.log'') = Node st
              \<and> st_ino hf = d_ino st \<and> st_dev hf = d_dev st))"
    then have lt: "hdr_file_seq hf < hdr_file_seq hf + 1"
      by (simp add: word_less_succ)
    show "mail_transaction_log_find_file L (hdr_file_seq hf + 1) = Inr (0, None, L)"
    proof (cases "locked hf")
      case True
      with assms lt show ?thesis by (simp add: ff)
    next
      case False
      with a have "mail_transaction_log_refresh L = Inr (0, L)"
        using noop by blast
      with assms lt False show ?thesis by (simp add: ff)
    qed
  qed
  have p7: "hdr_file_seq hf = - 1 \<and> (\<forall>q\<in>set (files L). deref L q \<noteq> None) \<longrightarrow>
      mail_transaction_log_find_file L (hdr_file_seq hf + 1) = Inr (chain_then_archive L 0)"
    using assms by (simp add: ff find_file_lookup_order)
  show ?thesis
    by (intro conjI) (rule p1, rule p2, rule p3, rule p4, rule p5, rule p6, rule p7)
qed

theorem find_file_order_witness:
  "head replaced_log = Some 0 \<and> deref replaced_log 0 = Some (example_file\<lparr>locked := True\<rparr>)
   \<and> hdr_file_seq (example_file\<lparr>locked := True\<rparr>) < 3
   \<and> locked (example_file\<lparr>locked := True\<rparr>)
   \<and> mail_transaction_log_find_file replaced_log 3 = Inr (0, None, replaced_log)
   \<and> head vanished_log = Some 0 \<and> deref vanished_log 0 = Some example_file
   \<and> hdr_file_seq example_file = 2 \<and> \<not> locked example_file
   \<and> mail_transaction_log_refresh vanished_log = Inr (- 1, vanished_log)
   \<and> mail_transaction_log_find_file vanished_log 7 = Inr (- 1, None, vanished_log)
   \<and> head lagging_log = Some 0 \<and> deref lagging_log 0 = Some example_file
   \<and> mail_transaction_log_refresh lagging_log = Inr (0, lagging_log_refreshed)
   \<and> head lagging_log_refreshed = Some 2
   \<and> map_option hdr_file_seq (deref lagging_log_refreshed 2) = Some 5
   \<and> files lagging_log_refreshed = [1]
   \<and> mail_transaction_log_find_file lagging_log 9 = Inr (0, None, lagging_log_refreshed)
   \<and> mail_transaction_log_find_file lagging_log 4 = Inr (1, Some 3, lagging_log_found)
   \<and> map_option hdr_file_seq (deref lagging_log_found 3) = Some 4
   \<and> head chained_log = Some 0 \<and> deref chained_log 0 = Some example_file
   \<and> files chained_log = [0, 1]
   \<and> map_option hdr_file_seq (deref chained_log 1) = Some 1
   \<and> mail_transaction_log_find_file chained_log 1 = Inr (1, Some 1, chained_log)
   \<and> disk chained_log (index_filepath chained_log @ ''.log'') = Node example_disk_file
   \<and> st_ino example_file = d_ino example_disk_file
   \<and> st_dev example_file = d_dev example_disk_file
   \<and> mail_transaction_log_find_file chained_log (hdr_file_seq example_file + 1) =
       Inr (0, None, chained_log)
   \<and> head wrapped_log = Some 0 \<and> deref wrapped_log 0 = Some wrapped_file
   \<and> hdr_file_seq wrapped_file = - 1
   \<and> mail_transaction_log_find_file wrapped_log (hdr_file_seq wrapped_file + 1) =
       Inr (- 1, None, wrapped_log_searched)"
proof -
  let ?lf = "example_file\<lparr>locked := True\<rparr>"
  let ?nf = "(load_disk_file newest_disk_file 3 24 (blank_file ''dovecot.index.log''))
               \<lparr>refcount := 1\<rparr>"
  have f: "hdr_file_seq example_file = 2" "\<not> locked example_file"
    "st_ino example_file = d_ino example_disk_file"
    "st_dev example_file = d_dev example_disk_file"
    "hdr_file_seq ?lf < 3" "locked ?lf" "hdr_file_seq wrapped_file = - 1"
    "hdr_file_seq ?nf = 5"
    by (simp_all add: example_file_def example_disk_file_def blank_file_def wrapped_file_def
        load_disk_file_def newest_disk_file_def)
  have r: "head replaced_log = Some 0" "deref replaced_log 0 = Some ?lf"
    by (simp_all add: replaced_log_def example_log_def eval_defs)
  have v: "head vanished_log = Some 0" "deref vanished_log 0 = Some example_file"
    by (simp_all add: vanished_log_def chained_log_def history_log_def example_log_def deref_def)
  have g: "head lagging_log = Some 0" "deref lagging_log 0 = Some example_file"
    "head lagging_log_refreshed = Some 2" "deref lagging_log_refreshed 2 = Some ?nf"
    "files lagging_log_refreshed = [1]" "deref lagging_log_refreshed 1 = Some older_file"
    by (simp_all add: lagging_log_refreshed_def lagging_log_def chained_log_def history_log_def
        example_log_def deref_def)
  have gf: "map_option hdr_file_seq (deref lagging_log_found 3) = Some 4"
    by (simp add: lagging_log_found_def lagging_log_refreshed_def deref_def load_disk_file_def
        archive_disk_file_def)
  have c: "head chained_log = Some 0" "deref chained_log 0 = Some example_file"
    "files chained_log = [0, 1]" "deref chained_log 1 = Some older_file"
    "disk chained_log (index_filepath chained_log @ ''.log'') = Node example_disk_file"
    by (simp_all add: chained_log_def history_log_def example_log_def deref_def
        mail_transaction_log_alloc_def)
  have o: "hdr_file_seq older_file = 1"
    by (simp add: older_file_def)
  have w: "head wrapped_log = Some 0" "deref wrapped_log 0 = Some wrapped_file"
    "files wrapped_log = []"
    by (simp_all add: wrapped_log_def example_log_def deref_def mail_transaction_log_alloc_def)
  have lt: "hdr_file_seq example_file < 7" "hdr_file_seq example_file < 9"
    "hdr_file_seq example_file < 4" "\<not> hdr_file_seq example_file < 1"
    "hdr_file_seq example_file \<noteq> - 1" "hdr_file_seq ?nf < 9" "\<not> hdr_file_seq ?nf < 4"
    by (simp_all add: f(1,8))
  have al: "\<forall>q\<in>set (files lagging_log_refreshed). deref lagging_log_refreshed q \<noteq> None"
    "\<forall>q\<in>set (files chained_log). deref chained_log q \<noteq> None"
    "\<forall>q\<in>set (files wrapped_log). deref wrapped_log q \<noteq> None"
    using g(6) c(2,4) by (simp_all add: g(5) c(3) w(3))
  have neg: "(- 1 :: int) < 0" "\<not> (0 :: int) < 0"
    by simp_all
  have w1: "mail_transaction_log_find_file replaced_log 3 = Inr (0, None, replaced_log)"
    using find_file_order [OF r, of 3] f(5,6) by blast
  have w2: "mail_transaction_log_find_file vanished_log 7 = Inr (- 1, None, vanished_log)"
    using find_file_order [OF v, of 7 "- 1" vanished_log] lt(1) f(2) vanished_log_refresh neg(1)
    by blast
  note T = find_file_order [OF g(1,2), of _ 0 lagging_log_refreshed 2 ?nf]
  have w3: "mail_transaction_log_find_file lagging_log 9 = Inr (0, None, lagging_log_refreshed)"
    using T [of 9] lt(2,6) f(2) lagging_log_refresh neg(2) g(3,4) by blast
  have w4: "mail_transaction_log_find_file lagging_log 4 = Inr (1, Some 3, lagging_log_found)"
    using T [of 4] lt(3,7) f(2) lagging_log_refresh neg(2) g(3,4) al(1)
    unfolding lagging_log_search by blast
  have w5: "mail_transaction_log_find_file chained_log 1 = Inr (1, Some 1, chained_log)"
    using find_file_order [OF c(1,2), of 1] lt(4) al(2) unfolding chained_log_search by blast
  have w6: "mail_transaction_log_find_file chained_log (hdr_file_seq example_file + 1) =
      Inr (0, None, chained_log)"
    using find_file_order [OF c(1,2), of _ _ _ _ _ example_disk_file] lt(5) c(5) f(3,4) by blast
  have w7: "mail_transaction_log_find_file wrapped_log (hdr_file_seq wrapped_file + 1) =
      Inr (- 1, None, wrapped_log_searched)"
    using find_file_order [OF w(1,2)] f(7) al(3) unfolding wrapped_log_search by blast
  have m: "map_option hdr_file_seq (deref lagging_log_refreshed 2) = Some 5"
    "map_option hdr_file_seq (deref chained_log 1) = Some 1"
    using g(4) c(4) by (simp_all add: f(8) o)
  show ?thesis
    by (intro conjI)
      (rule r(1), rule r(2), rule f(5), rule f(6), rule w1,
       rule v(1), rule v(2), rule f(1), rule f(2), rule vanished_log_refresh, rule w2,
       rule g(1), rule g(2), rule lagging_log_refresh, rule g(3), rule m(1), rule g(5),
       rule w3, rule w4, rule gf,
       rule c(1), rule c(2), rule c(3), rule m(2), rule w5, rule c(5), rule f(3), rule f(4),
       rule w6, rule w(1), rule w(2), rule f(7), rule w7)
qed

text \<open>
  C5 as stated fails at the largest sequence: no rotation has occurred (the canonical
  path names the head's file and the refresh changes nothing), \<open>head.file_seq + 1\<close>
  wraps around to 0, the chain is empty and opening the \<^verbatim>\<open>.log.2\<close> file fails, so the
  answer is Error (-1) and not NotFound.
\<close>

theorem find_file_wraps_to_error:
  "head wrapped_log = Some 0 \<and> deref wrapped_log 0 = Some wrapped_file
   \<and> hdr_file_seq wrapped_file = 4294967295 \<and> hdr_file_seq wrapped_file + 1 = 0
   \<and> \<not> locked wrapped_file
   \<and> mail_transaction_log_refresh wrapped_log = Inr (0, wrapped_log)
   \<and> mail_transaction_log_find_file wrapped_log (hdr_file_seq wrapped_file + 1) =
       Inr (- 1, None, wrapped_log_searched)"
  by (simp add: mail_transaction_log_find_file_def find_file_lookup_def wrapped_log_def
      wrapped_log_searched_def wrapped_file_def example_log_def example_file_def
      example_disk_file_def eval_defs)

end
